theory Spec2Isabelle
  imports Complex_Main
begin

section \<open>Values, faults and module namespaces\<close>

text \<open>
  The three scripts (Incinerator_odeint.py, MicroalgaeDroop_odeint.py, Truck_odeint.py)
  compute with Python numbers and numpy float64 arrays. Arithmetic is modelled exactly
  over the reals: rounding and overflow of float64 are outside the model, so a value the
  model calls finite may still be \<open>inf\<close> in the program when a divisor is tiny or a sum
  rounds to zero, while a value the model calls non-finite is non-finite in the program.
  What is kept
  is the difference between the two kinds of division the scripts use:
  \<^item> a division among module-level Python scalars raises ZeroDivisionError on a zero
    divisor;
  \<^item> a division that involves an element of the state array \<open>X\<close> is a numpy division:
    a zero divisor gives \<open>inf\<close> or \<open>nan\<close> (with a warning, no exception), and that value
    flows on through the arithmetic that follows.

  A state is the float64 array the solver passes, a list of finite reals here; a
  derivative vector is a list of values that are finite or not. Each derivative function
  takes the time as its second argument; the default \<open>t=0\<close> of the signatures is left to
  the caller.
\<close>

datatype fault = NameError string | IndexError | ZeroDivisionError | ValueError
  | SolverError string

datatype fval = Fin real | NonFinite

fun np_div :: "real \<Rightarrow> real \<Rightarrow> fval" where
  "np_div a b = (if b = 0 then NonFinite else Fin (a / b))"

fun np_add :: "fval \<Rightarrow> fval \<Rightarrow> fval" where
  "np_add (Fin a) (Fin b) = Fin (a + b)"
| "np_add _ _ = NonFinite"

fun np_sub :: "fval \<Rightarrow> fval \<Rightarrow> fval" where
  "np_sub (Fin a) (Fin b) = Fin (a - b)"
| "np_sub _ _ = NonFinite"

fun np_mul :: "fval \<Rightarrow> fval \<Rightarrow> fval" where
  "np_mul (Fin a) (Fin b) = Fin (a * b)"
| "np_mul _ _ = NonFinite"

fun finite_val :: "fval \<Rightarrow> bool" where
  "finite_val (Fin a) = True"
| "finite_val NonFinite = False"

text \<open>
  A module namespace maps the names bound so far to their values. A module-level
  assignment \<open>name = expression\<close> evaluates the expression in the namespace reached so
  far and rebinds the name; a later assignment to the same name replaces the earlier one.
\<close>

type_synonym env = "string \<rightharpoonup> real"

type_synonym stmt = "string \<times> (env \<Rightarrow> real)"

definition val :: "env \<Rightarrow> string \<Rightarrow> real" where
  "val G k = the (G k)"

definition lit :: "real \<Rightarrow> env \<Rightarrow> real" where
  "lit v = (\<lambda>G. v)"

definition assign :: "stmt \<Rightarrow> env \<Rightarrow> env" where
  "assign s G = G(fst s \<mapsto> snd s G)"

definition exec :: "stmt list \<Rightarrow> env" where
  "exec ss = fold assign ss Map.empty"

definition unbound :: "env \<Rightarrow> string list \<Rightarrow> string list" where
  "unbound G ks = filter (\<lambda>k. G k = None) ks"

text \<open>
  The values bound to the name \<open>k\<close>, one after the other, while the statements \<open>ss\<close>
  run from the namespace \<open>G\<close>.
\<close>

fun history :: "stmt list \<Rightarrow> env \<Rightarrow> string \<Rightarrow> real list" where
  "history [] G k = []"
| "history (s # ss) G k =
    (if fst s = k then [snd s G] else []) @ history ss (assign s G) k"


section \<open>Incinerator\<close>

text \<open>Lines 32 to 77 of Incinerator_odeint.py, in source order.\<close>

definition incinerator_settings :: "stmt list" where
  "incinerator_settings =
    [(''t_final'', lit (3 * 60)),
     (''F_in'', lit 100),
     (''F_out'', lit 10),
     (''R_w'', lit 70),
     (''F_char_out'', lit 2),
     (''P_char'', lit 6),
     (''R_char'', lit 3),
     (''c_p_w'', lit 1),
     (''F_aI'', lit 5),
     (''c_p_g'', lit 5),
     (''T_aI'', lit 20),
     (''Q'', lit 100),
     (''c_p_char'', lit 1),
     (''c_p_m'', lit 25),
     (''M_grate'', lit 500),
     (''F_g_w_out'', lit 2),
     (''R_g'', lit 1),
     (''F_g_out'', lit 2),
     (''F_aII'', lit 3),
     (''c_p_m'', lit 5),
     (''M_f_b'', lit 120),
     (''T_aII'', lit 20),
     (''Q_g'', lit 450),
     (''M_ini'', lit 0),
     (''M_char_ini'', lit 0),
     (''T_w_ini'', lit 20),
     (''M_g_w_ini'', lit 0),
     (''M_g_f_ini'', lit 0),
     (''T_g_ini'', lit 20),
     (''Q_ext'', lit 40)]"

definition incinerator_globals :: env where
  "incinerator_globals = exec incinerator_settings"

definition incinerator_X_ini :: "real list" where
  "incinerator_X_ini =
    (let G = incinerator_globals in
     [val G ''M_ini'', val G ''M_char_ini'', val G ''T_w_ini'',
      val G ''M_g_w_ini'', val G ''M_g_f_ini'', val G ''T_g_ini''])"

definition incinerator_reads :: "string list" where
  "incinerator_reads =
    [''F_in'', ''F_out'', ''R_w'', ''F_char_out'', ''P_char'', ''R_char'', ''c_p_w'',
     ''F_aI'', ''c_p_g'', ''T_aI'', ''Q'', ''c_p_char'', ''c_p_m'', ''M_grate'',
     ''F_g_w_out'', ''R_g'', ''F_g_out'', ''F_aII'', ''T_aII'', ''Q_g'', ''Q_ext'',
     ''M_f_b'']"

text \<open>
  \<open>incinerator(X, t=0)\<close>, lines 81 to 88, evaluated in a namespace \<open>G\<close>: the body reads
  its constants from the module namespace when it is called. A name that is not bound
  raises NameError, an index beyond the array raises IndexError (the largest index
  read is 5); the two divisions are numpy divisions. The model reports an unbound name
  before a short array, whichever the body would meet first: in the scripts every name
  is bound when the function is called, so the NameError branch is never taken.
\<close>

definition incinerator_in :: "env \<Rightarrow> real list \<Rightarrow> real \<Rightarrow> fault + fval list" where
  "incinerator_in G X t =
    (case unbound G incinerator_reads of
       k # ks \<Rightarrow> Inl (NameError k)
     | [] \<Rightarrow>
       if length X < 6 then Inl IndexError
       else
         (let F_in = val G ''F_in''; F_out = val G ''F_out''; R_w = val G ''R_w'';
              F_char_out = val G ''F_char_out''; P_char = val G ''P_char'';
              R_char = val G ''R_char''; c_p_w = val G ''c_p_w''; F_aI = val G ''F_aI'';
              c_p_g = val G ''c_p_g''; T_aI = val G ''T_aI''; Q = val G ''Q'';
              c_p_char = val G ''c_p_char''; c_p_m = val G ''c_p_m'';
              M_grate = val G ''M_grate''; F_g_w_out = val G ''F_g_w_out'';
              R_g = val G ''R_g''; F_g_out = val G ''F_g_out''; F_aII = val G ''F_aII'';
              T_aII = val G ''T_aII''; Q_g = val G ''Q_g''; Q_ext = val G ''Q_ext'';
              M_f_b = val G ''M_f_b''
          in Inr
            [Fin (F_in - F_out - R_w),
             Fin (- F_char_out + P_char - R_char),
             np_div (F_in * c_p_w * X ! 2 + F_aI * c_p_g * (T_aI - X ! 2) + Q)
                    (c_p_w * X ! 0 + c_p_char * X ! 1 + c_p_m * M_grate),
             Fin (F_aI - F_g_w_out + R_g),
             Fin (F_g_w_out - F_g_out + F_aII),
             np_div (F_g_w_out * c_p_g * (X ! 2 - X ! 5) + F_aII * c_p_g * (T_aII - X ! 5)
                       + Q_g - Q_ext)
                    (c_p_g * X ! 4 + c_p_m * M_f_b)]))"

text \<open>The function as the script calls it: in the namespace left by lines 32 to 77.\<close>

definition incinerator :: "real list \<Rightarrow> real \<Rightarrow> fault + fval list" where
  "incinerator X t = incinerator_in incinerator_globals X t"



section \<open>Microalgae (Droop model)\<close>

text \<open>Lines 28 to 53 of MicroalgaeDroop_odeint.py, in source order.\<close>

definition droop_settings :: "stmt list" where
  "droop_settings =
    [(''t_final'', lit 15),
     (''K_sI'', lit 0),
     (''K_iI'', lit 295),
     (''mu_tilde'', lit 1.7),
     (''k_q'', lit 1.7),
     (''K_S'', lit 0.1),
     (''rho_max'', lit 9.40),
     (''T_h'', lit (1 / 0.45)),
     (''S_in'', lit 100),
     (''K_CO2'', lit 0.3),
     (''I_bar'', lit 50),
     (''X_ALG_ini'', lit 26),
     (''Q_ini'', lit 2.82),
     (''S_ini'', lit 0),
     (''I'', \<lambda>G. val G ''I_bar'')]"

definition droop_globals :: env where
  "droop_globals = exec droop_settings"

definition droop_X_ini :: "real list" where
  "droop_X_ini =
    (let G = droop_globals in [val G ''X_ALG_ini'', val G ''Q_ini'', val G ''S_ini''])"

definition microalgaeDroop_reads :: "string list" where
  "microalgaeDroop_reads =
    [''mu_tilde'', ''I'', ''K_sI'', ''K_iI'', ''k_q'', ''rho_max'', ''K_S'', ''T_h'',
     ''S_in'']"

text \<open>
  \<open>microalgaeDroop(X, t=0)\<close>, lines 57 to 63. The light factor
  \<open>I/(I+K_sI+(I**2/K_iI))\<close> and \<open>1/T_h\<close> divide Python scalars; \<open>k_q/X[1]\<close> and
  \<open>X[2]/(X[2]+K_S)\<close> are numpy divisions. The largest index read is 2.
\<close>

definition microalgaeDroop_in :: "env \<Rightarrow> real list \<Rightarrow> real \<Rightarrow> fault + fval list" where
  "microalgaeDroop_in G X t =
    (case unbound G microalgaeDroop_reads of
       k # ks \<Rightarrow> Inl (NameError k)
     | [] \<Rightarrow>
       (let mu_tilde = val G ''mu_tilde''; I = val G ''I''; K_sI = val G ''K_sI'';
            K_iI = val G ''K_iI''; k_q = val G ''k_q''; rho_max = val G ''rho_max'';
            K_S = val G ''K_S''; T_h = val G ''T_h''; S_in = val G ''S_in''
        in
          if K_iI = 0 \<or> I + K_sI + I ^ 2 / K_iI = 0 then Inl ZeroDivisionError
          else if length X < 3 then Inl IndexError
          else if T_h = 0 then Inl ZeroDivisionError
          else
            (let mu = np_mul (Fin (mu_tilde * (I / (I + K_sI + I ^ 2 / K_iI))))
                             (np_sub (Fin 1) (np_div k_q (X ! 1)));
                 rho = np_mul (Fin rho_max) (np_div (X ! 2) (X ! 2 + K_S))
             in Inr
               [np_sub (np_mul mu (Fin (X ! 0))) (Fin ((1 / T_h) * X ! 0)),
                np_sub rho (np_mul mu (Fin (X ! 1))),
                np_sub (Fin ((1 / T_h) * (S_in - X ! 2))) (np_mul rho (Fin (X ! 0)))])))"

definition microalgaeDroop :: "real list \<Rightarrow> real \<Rightarrow> fault + fval list" where
  "microalgaeDroop X t = microalgaeDroop_in droop_globals X t"


section \<open>Transport truck\<close>

text \<open>Lines 35 to 49 of Truck_odeint.py, in source order.\<close>

definition truck_settings :: "stmt list" where
  "truck_settings =
    [(''t_final'', lit 15),
     (''m_truck'', lit 3000),
     (''m_u'', lit 210),
     (''m_total'', \<lambda>G. val G ''m_truck'' + val G ''m_u''),
     (''position_ini'', lit 0),
     (''speed_ini'', lit 4),
     (''F'', lit 4000)]"

definition truck_globals :: env where
  "truck_globals = exec truck_settings"

definition truck_X_ini :: "real list" where
  "truck_X_ini = (let G = truck_globals in [val G ''position_ini'', val G ''speed_ini''])"

definition transportTruck_reads :: "string list" where
  "transportTruck_reads = [''F'', ''m_total'']"

text \<open>
  \<open>transportTruck(X, t=0)\<close>, lines 53 to 56: \<open>X[1]\<close> is read first, then \<open>F/m_total\<close>
  divides two Python scalars.
\<close>

definition transportTruck_in :: "env \<Rightarrow> real list \<Rightarrow> real \<Rightarrow> fault + fval list" where
  "transportTruck_in G X t =
    (case unbound G transportTruck_reads of
       k # ks \<Rightarrow> Inl (NameError k)
     | [] \<Rightarrow>
       (let F = val G ''F''; m_total = val G ''m_total''
        in
          if length X < 2 then Inl IndexError
          else if m_total = 0 then Inl ZeroDivisionError
          else Inr [Fin (X ! 1), Fin (F / m_total)]))"

definition transportTruck :: "real list \<Rightarrow> real \<Rightarrow> fault + fval list" where
  "transportTruck X t = transportTruck_in truck_globals X t"


section \<open>The scripts around the solver call\<close>

text \<open>
  \<open>np.linspace(start, stop, num)\<close> with the default \<open>endpoint=True\<close>: \<open>num\<close> points
  \<open>start + i * step\<close> with \<open>step = (stop - start) / (num - 1)\<close>, the last one set to
  \<open>stop\<close> when there are at least two; a single point is \<open>start\<close>.
\<close>

definition linspace :: "real \<Rightarrow> real \<Rightarrow> nat \<Rightarrow> real list" where
  "linspace start stop num =
    (if num = 0 then []
     else if num = 1 then [start]
     else (map (\<lambda>i. start + real i * ((stop - start) / real (num - 1))) [0..<num])
            [num - 1 := stop])"

text \<open>
  \<open>integrate.odeint\<close> belongs to scipy, not to the scripts: it is a parameter of the
  model. It is called as \<open>odeint(f, X_ini, t, mxstep = 1000, full_output = True)\<close> and
  either raises or returns the pair \<open>(X, infodict)\<close>, the trajectory as an array with
  one row per sample and a dictionary of diagnostics, of which the model keeps the
  \<open>message\<close> entry and the cumulative step counts \<open>nst\<close>.
\<close>

record infodict =
  message :: string
  nst :: "nat list"

type_synonym trajectory = "fval list list"

type_synonym solver =
  "(real list \<Rightarrow> real \<Rightarrow> fault + fval list) \<Rightarrow> real list \<Rightarrow> real list \<Rightarrow> nat
    \<Rightarrow> fault + (trajectory \<times> infodict)"

text \<open>
  What a script leaves behind: either it stopped with an exception, or it drew its
  figures, each a line of \<open>y\<close> against \<open>t\<close>.
\<close>

datatype run = Aborted fault | Plotted "(real list \<times> fval list) list"

fun is_plotted :: "run \<Rightarrow> bool" where
  "is_plotted (Plotted figs) = True"
| "is_plotted (Aborted e) = False"

text \<open>
  The tuple assignment \<open>a, b, ... = X.T\<close> with \<open>d\<close> targets: the columns of \<open>X\<close>,
  ValueError unless \<open>X\<close> has exactly \<open>d\<close> columns.
\<close>

definition columns :: "nat \<Rightarrow> trajectory \<Rightarrow> fault + fval list list" where
  "columns d X =
    (if list_all (\<lambda>row. length row = d) X
     then Inr (map (\<lambda>j. map (\<lambda>row. row ! j) X) [0..<d])
     else Inl ValueError)"

text \<open>
  The figures: \<open>plt.plot(t, y)\<close> for each series in turn, ValueError when \<open>t\<close> and \<open>y\<close>
  differ in length.
\<close>

definition plots :: "real list \<Rightarrow> fval list list \<Rightarrow> run" where
  "plots t series =
    (if list_all (\<lambda>y. length y = length t) series then Plotted (map (Pair t) series)
     else Aborted ValueError)"

definition incinerator_t :: "real list" where
  "incinerator_t = linspace 0 (val incinerator_globals ''t_final'') 1000"

text \<open>Incinerator_odeint.py, lines 91 to 143.\<close>

definition incinerator_script :: "solver \<Rightarrow> run" where
  "incinerator_script odeint =
    (case odeint incinerator incinerator_X_ini incinerator_t 1000 of
       Inl e \<Rightarrow> Aborted e
     | Inr (X, infodict) \<Rightarrow>
         (case columns 6 X of
            Inl e \<Rightarrow> Aborted e
          | Inr series \<Rightarrow> plots incinerator_t series))"

definition droop_t :: "real list" where
  "droop_t = linspace 0 (val droop_globals ''t_final'') 1000"

text \<open>
  The array expression \<open>rho_max*(S/(S+K_S))\<close> of line 73 at one sample of \<open>S\<close>; a
  sample that is already \<open>inf\<close> or \<open>nan\<close> gives \<open>nan\<close>.
\<close>

fun uptake :: "env \<Rightarrow> fval \<Rightarrow> fval" where
  "uptake G (Fin s) = np_mul (Fin (val G ''rho_max'')) (np_div s (s + val G ''K_S''))"
| "uptake G NonFinite = NonFinite"

text \<open>MicroalgaeDroop_odeint.py, lines 66 to 117.\<close>

definition droop_script :: "solver \<Rightarrow> run" where
  "droop_script odeint =
    (case odeint microalgaeDroop droop_X_ini droop_t 1000 of
       Inl e \<Rightarrow> Aborted e
     | Inr (X, infodict) \<Rightarrow>
         (case columns 3 X of
            Inl e \<Rightarrow> Aborted e
          | Inr series \<Rightarrow>
              (let X_ALG = series ! 0; Q = series ! 1; S = series ! 2;
                   rho = map (uptake droop_globals) S;
                   m_dot23 = map (np_mul (Fin (val droop_globals ''K_CO2''))) rho
               in plots droop_t
                    [X_ALG, Q, S, m_dot23, map2 np_add S (map2 np_mul X_ALG Q)])))"

definition truck_t :: "real list" where
  "truck_t = linspace 0 (val truck_globals ''t_final'') 1000"

text \<open>Truck_odeint.py, lines 59 to 79.\<close>

definition truck_script :: "solver \<Rightarrow> run" where
  "truck_script odeint =
    (case odeint transportTruck truck_X_ini truck_t 1000 of
       Inl e \<Rightarrow> Aborted e
     | Inr (X, infodict) \<Rightarrow>
         (case columns 2 X of
            Inl e \<Rightarrow> Aborted e
          | Inr series \<Rightarrow> plots truck_t series))"

text \<open>
  Three solvers to run the scripts against. The first stands for a solver that gives up
  on the first reporting interval the way scipy's \<open>odeint\<close> reports it: no exception,
  the rows it did not reach left as they were allocated, and the condition named in
  \<open>infodict['message']\<close>. The second returns the same array and reports success. The
  third raises instead of returning.
\<close>

definition excess_work :: string where
  "excess_work = ''Excess work done on this call (perhaps wrong Dfun type).''"

definition stalled_odeint :: solver where
  "stalled_odeint f y0 t mxstep =
    Inr (map Fin y0 # replicate (length t - 1) (map (\<lambda>y. Fin 0) y0),
         \<lparr>message = excess_work, nst = [mxstep]\<rparr>)"

definition successful_odeint :: solver where
  "successful_odeint f y0 t mxstep =
    Inr (map Fin y0 # replicate (length t - 1) (map (\<lambda>y. Fin 0) y0),
         \<lparr>message = ''Integration successful.'', nst = [1]\<rparr>)"

definition raising_odeint :: solver where
  "raising_odeint f y0 t mxstep = Inl (SolverError excess_work)"


section \<open>Exact solutions\<close>

text \<open>
  A state function \<open>x\<close> solves component \<open>i\<close> of the system \<open>f\<close> on \<open>[0, T]\<close> when, at
  every time of the interval, \<open>f\<close> returns a derivative vector whose component \<open>i\<close> is
  finite and is the derivative of the component \<open>i\<close> of \<open>x\<close>.
\<close>

definition solves_component ::
  "(real list \<Rightarrow> real \<Rightarrow> fault + fval list) \<Rightarrow> (real \<Rightarrow> real list) \<Rightarrow> nat \<Rightarrow> real \<Rightarrow> bool" where
  "solves_component f x i T \<longleftrightarrow>
    (\<forall>t\<in>{0..T}. \<exists>d r. f (x t) t = Inr d \<and> i < length d \<and> d ! i = Fin r \<and>
       ((\<lambda>s. x s ! i) has_real_derivative r) (at t within {0..T}))"

text \<open>
  The closed form the specification gives for the truck: \<open>position(t) = position_ini +
  speed_ini*t + 0.5*(F/m_total)*t^2\<close> and \<open>speed(t) = speed_ini + (F/m_total)*t\<close>.
\<close>

definition truck_closed_form :: "real \<Rightarrow> real list" where
  "truck_closed_form t =
    (let G = truck_globals; a = val G ''F'' / val G ''m_total''
     in [val G ''position_ini'' + val G ''speed_ini'' * t + 0.5 * a * t ^ 2,
         val G ''speed_ini'' + a * t])"

text \<open>
  The growth rate \<open>mu\<close> of line 58 at a quota \<open>q\<close> and the uptake rate \<open>rho\<close> of line 59
  at a substrate level \<open>s\<close>, where their divisions are defined.
\<close>

definition droop_mu :: "real \<Rightarrow> real" where
  "droop_mu q =
    (let G = droop_globals; I = val G ''I''
     in val G ''mu_tilde'' * (I / (I + val G ''K_sI'' + I ^ 2 / val G ''K_iI''))
          * (1 - val G ''k_q'' / q))"

definition droop_rho :: "real \<Rightarrow> real" where
  "droop_rho s = (let G = droop_globals in val G ''rho_max'' * (s / (s + val G ''K_S'')))"

text \<open>The diagnostic of line 112, \<open>S + X_ALG*Q\<close>, at one state.\<close>

definition mass_balance :: "real list \<Rightarrow> real" where
  "mass_balance X = X ! 2 + X ! 0 * X ! 1"

text \<open>
  The derivative of \<open>mass_balance\<close> in the direction \<open>d\<close> at the state \<open>X\<close>: its gradient
  is \<open>(Q, X_ALG, 1)\<close>.
\<close>

definition mass_balance_along :: "real list \<Rightarrow> real list \<Rightarrow> real" where
  "mass_balance_along X d = X ! 1 * d ! 0 + X ! 0 * d ! 1 + d ! 2"

text \<open>A first-order response from \<open>g0\<close> toward \<open>target\<close> with time constant \<open>tau\<close>.\<close>

definition first_order :: "real \<Rightarrow> real \<Rightarrow> real \<Rightarrow> real \<Rightarrow> real" where
  "first_order g0 target tau t = target + (g0 - target) * exp (- t / tau)"

text \<open>
  A state function for the incinerator whose four masses grow at constant rates from
  the initial state while both temperatures stay at 20. It shows that the mass balances
  have a solution; it is not a solution of the two temperature equations.
\<close>

definition linear_masses :: "real \<Rightarrow> real list" where
  "linear_masses t = [20 * t, t, 20, 4 * t, 3 * t, 20]"


section \<open>The modules evaluated\<close>

text \<open>
  The namespaces the three modules leave behind, and the derivative functions with their
  constants filled in. Every name a derivative function reads is bound, so the NameError
  branch is never taken in the scripts.
\<close>

lemma incinerator_globals_values:
  "incinerator_globals ''F_in'' = Some 100"
  "incinerator_globals ''F_out'' = Some 10"
  "incinerator_globals ''R_w'' = Some 70"
  "incinerator_globals ''F_char_out'' = Some 2"
  "incinerator_globals ''P_char'' = Some 6"
  "incinerator_globals ''R_char'' = Some 3"
  "incinerator_globals ''c_p_w'' = Some 1"
  "incinerator_globals ''F_aI'' = Some 5"
  "incinerator_globals ''c_p_g'' = Some 5"
  "incinerator_globals ''T_aI'' = Some 20"
  "incinerator_globals ''Q'' = Some 100"
  "incinerator_globals ''c_p_char'' = Some 1"
  "incinerator_globals ''c_p_m'' = Some 5"
  "incinerator_globals ''M_grate'' = Some 500"
  "incinerator_globals ''F_g_w_out'' = Some 2"
  "incinerator_globals ''R_g'' = Some 1"
  "incinerator_globals ''F_g_out'' = Some 2"
  "incinerator_globals ''F_aII'' = Some 3"
  "incinerator_globals ''T_aII'' = Some 20"
  "incinerator_globals ''Q_g'' = Some 450"
  "incinerator_globals ''Q_ext'' = Some 40"
  "incinerator_globals ''M_f_b'' = Some 120"
  "incinerator_globals ''t_final'' = Some 180"
  "incinerator_globals ''M_ini'' = Some 0"
  "incinerator_globals ''M_char_ini'' = Some 0"
  "incinerator_globals ''T_w_ini'' = Some 20"
  "incinerator_globals ''M_g_w_ini'' = Some 0"
  "incinerator_globals ''M_g_f_ini'' = Some 0"
  "incinerator_globals ''T_g_ini'' = Some 20"
  by (simp_all add: incinerator_globals_def incinerator_settings_def exec_def assign_def
      lit_def)

lemma incinerator_unbound: "unbound incinerator_globals incinerator_reads = []"
  by (simp add: unbound_def incinerator_reads_def incinerator_globals_values)

lemma incinerator_X_ini_eval: "incinerator_X_ini = [0, 0, 20, 0, 0, 20]"
  by (simp add: incinerator_X_ini_def val_def incinerator_globals_values)

lemma incinerator_eval:
  "incinerator X t =
    (if length X < 6 then Inl IndexError
     else Inr [Fin 20, Fin 1,
               np_div (100 * X ! 2 + 25 * (20 - X ! 2) + 100) (X ! 0 + X ! 1 + 2500),
               Fin 4, Fin 3,
               np_div (10 * (X ! 2 - X ! 5) + 15 * (20 - X ! 5) + 410) (5 * X ! 4 + 600)])"
  by (simp add: incinerator_def incinerator_in_def incinerator_unbound val_def
      incinerator_globals_values)

lemma c_p_m_history: "history incinerator_settings Map.empty ''c_p_m'' = [25, 5]"
  by (simp add: incinerator_settings_def lit_def)

lemma droop_globals_values:
  "droop_globals ''t_final'' = Some 15"
  "droop_globals ''K_sI'' = Some 0"
  "droop_globals ''K_iI'' = Some 295"
  "droop_globals ''mu_tilde'' = Some 1.7"
  "droop_globals ''k_q'' = Some 1.7"
  "droop_globals ''K_S'' = Some 0.1"
  "droop_globals ''rho_max'' = Some 9.4"
  "droop_globals ''T_h'' = Some (20 / 9)"
  "droop_globals ''S_in'' = Some 100"
  "droop_globals ''K_CO2'' = Some 0.3"
  "droop_globals ''I_bar'' = Some 50"
  "droop_globals ''X_ALG_ini'' = Some 26"
  "droop_globals ''Q_ini'' = Some 2.82"
  "droop_globals ''S_ini'' = Some 0"
  "droop_globals ''I'' = Some 50"
  by (simp_all add: droop_globals_def droop_settings_def exec_def assign_def
      lit_def val_def)

lemma truck_globals_values:
  "truck_globals ''t_final'' = Some 15"
  "truck_globals ''m_truck'' = Some 3000"
  "truck_globals ''m_u'' = Some 210"
  "truck_globals ''m_total'' = Some 3210"
  "truck_globals ''position_ini'' = Some 0"
  "truck_globals ''speed_ini'' = Some 4"
  "truck_globals ''F'' = Some 4000"
  by (simp_all add: truck_globals_def truck_settings_def exec_def assign_def
      lit_def val_def)


lemma droop_unbound: "unbound droop_globals microalgaeDroop_reads = []"
  by (simp add: unbound_def microalgaeDroop_reads_def droop_globals_values)

lemma droop_X_ini_eval: "droop_X_ini = [26, 2.82, 0]"
  by (simp add: droop_X_ini_def val_def droop_globals_values)

lemma droop_mu_eval: "droop_mu q = 1003 / 690 * (1 - 1.7 / q)"
  by (simp add: droop_mu_def val_def droop_globals_values Let_def)

lemma droop_rho_eval: "droop_rho s = 9.4 * (s / (s + 0.1))"
  by (simp add: droop_rho_def val_def droop_globals_values Let_def)

lemma microalgaeDroop_eval:
  "microalgaeDroop X t =
    (if length X < 3 then Inl IndexError
     else
       (let mu = np_mul (Fin (1003 / 690)) (np_sub (Fin 1) (np_div 1.7 (X ! 1)));
            rho = np_mul (Fin 9.4) (np_div (X ! 2) (X ! 2 + 0.1))
        in Inr [np_sub (np_mul mu (Fin (X ! 0))) (Fin (0.45 * X ! 0)),
                np_sub rho (np_mul mu (Fin (X ! 1))),
                np_sub (Fin (0.45 * (100 - X ! 2))) (np_mul rho (Fin (X ! 0)))]))"
  by (simp add: microalgaeDroop_def microalgaeDroop_in_def droop_unbound val_def
      droop_globals_values Let_def)

lemma microalgaeDroop_finite:
  assumes "3 \<le> length X" "X ! 1 \<noteq> 0" "X ! 2 + 0.1 \<noteq> 0"
  shows "microalgaeDroop X t =
    Inr [Fin (droop_mu (X ! 1) * X ! 0 - 0.45 * X ! 0),
         Fin (droop_rho (X ! 2) - droop_mu (X ! 1) * X ! 1),
         Fin (0.45 * (100 - X ! 2) - droop_rho (X ! 2) * X ! 0)]"
  using assms by (simp add: microalgaeDroop_eval droop_mu_eval droop_rho_eval Let_def)

lemma truck_unbound: "unbound truck_globals transportTruck_reads = []"
  by (simp add: unbound_def transportTruck_reads_def truck_globals_values)

lemma truck_X_ini_eval: "truck_X_ini = [0, 4]"
  by (simp add: truck_X_ini_def val_def truck_globals_values)

lemma transportTruck_eval:
  "transportTruck X t =
    (if length X < 2 then Inl IndexError else Inr [Fin (X ! 1), Fin (4000 / 3210)])"
  by (simp add: transportTruck_def transportTruck_in_def truck_unbound val_def
      truck_globals_values Let_def)

lemma truck_closed_form_eval:
  "truck_closed_form t = [0 + 4 * t + 0.5 * (4000 / 3210) * t ^ 2, 4 + 4000 / 3210 * t]"
  by (simp add: truck_closed_form_def val_def truck_globals_values Let_def)

lemma truck_closed_form_initial: "truck_closed_form 0 = truck_X_ini"
  by (simp add: truck_closed_form_eval truck_X_ini_eval)


section \<open>Solutions on an interval\<close>

text \<open>
  A function whose derivative vanishes on \<open>[0, T]\<close> is constant there, and one whose
  derivative is the constant \<open>c\<close> is a line of slope \<open>c\<close>. Both are read off the mean
  value theorem.
\<close>

lemma zero_derivative_constant:
  fixes v :: "real \<Rightarrow> real"
  assumes der: "\<And>t. 0 \<le> t \<Longrightarrow> t \<le> T \<Longrightarrow> (v has_real_derivative 0) (at t within {0..T})"
    and s: "0 \<le> s" "s \<le> T"
  shows "v s = v 0"
proof (cases "0 < T")
  case True
  have cont: "continuous_on {0..T} v"
    by (rule DERIV_continuous_on) (use der in auto)
  have inner: "DERIV v t :> 0" if "0 < t" "t < T" for t
    using der [of t] that by (simp add: at_within_Icc_at)
  show ?thesis
    by (rule DERIV_isconst2 [OF True cont inner s])
next
  case False
  with s have "s = 0" by linarith
  then show ?thesis by simp
qed

lemma constant_rate_linear:
  fixes u :: "real \<Rightarrow> real"
  assumes der: "\<And>t. 0 \<le> t \<Longrightarrow> t \<le> T \<Longrightarrow> (u has_real_derivative c) (at t within {0..T})"
    and s: "0 \<le> s" "s \<le> T"
  shows "u s = u 0 + c * s"
proof -
  have "((\<lambda>t. u t - c * t) has_real_derivative 0) (at t within {0..T})"
    if "0 \<le> t" "t \<le> T" for t
    by (rule derivative_eq_intros der [OF that] | simp)+
  from zero_derivative_constant [of T "\<lambda>t. u t - c * t", OF this s]
  show ?thesis by simp
qed

lemma solves_componentD:
  assumes "solves_component f x i T" "0 \<le> t" "t \<le> T"
  obtains d r where "f (x t) t = Inr d" "i < length d" "d ! i = Fin r"
    "((\<lambda>s. x s ! i) has_real_derivative r) (at t within {0..T})"
  using assms unfolding solves_component_def by (metis atLeastAtMost_iff)

lemma solves_componentI:
  assumes "\<And>t. 0 \<le> t \<Longrightarrow> t \<le> T \<Longrightarrow>
    f (x t) t = Inr (d t) \<and> i < length (d t) \<and> d t ! i = Fin (r t) \<and>
    ((\<lambda>s. x s ! i) has_real_derivative r t) (at t within {0..T})"
  shows "solves_component f x i T"
  unfolding solves_component_def using assms by (metis atLeastAtMost_iff)

lemma incinerator_component_rates:
  assumes "solves_component incinerator x i T" "0 \<le> t" "t \<le> T" "i \<in> {0, 1, 3, 4}"
  shows "((\<lambda>s. x s ! i) has_real_derivative [20, 1, 0, 4, 3] ! i) (at t within {0..T})"
proof -
  from assms(1-3) obtain d r where d: "incinerator (x t) t = Inr d" "d ! i = Fin r"
    and der: "((\<lambda>s. x s ! i) has_real_derivative r) (at t within {0..T})"
    by (rule solves_componentD)
  from d assms(4) have "r = [20, 1, 0, 4, 3] ! i"
    by (auto simp: incinerator_eval split: if_splits)
  with der show ?thesis by simp
qed

lemma linear_masses_solve:
  assumes "i \<in> {0, 1, 3, 4}"
  shows "solves_component incinerator linear_masses i T"
proof (rule solves_componentI [where
      d = "\<lambda>t. [Fin 20, Fin 1, np_div (100 * 20 + 25 * (20 - 20) + 100) (20 * t + t + 2500),
                 Fin 4, Fin 3,
                 np_div (10 * (20 - 20) + 15 * (20 - 20) + 410) (5 * (3 * t) + 600)]"
      and r = "\<lambda>t. [20, 1, 0, 4, 3] ! i"])
  fix t :: real
  have "((\<lambda>s. linear_masses s ! i) has_real_derivative [20, 1, 0, 4, 3] ! i)
      (at t within {0..T})"
    using assms by (auto simp: linear_masses_def intro!: derivative_eq_intros)
  with assms show "incinerator (linear_masses t) t =
      Inr [Fin 20, Fin 1, np_div (100 * 20 + 25 * (20 - 20) + 100) (20 * t + t + 2500),
           Fin 4, Fin 3, np_div (10 * (20 - 20) + 15 * (20 - 20) + 410) (5 * (3 * t) + 600)] \<and>
    i < length [Fin 20, Fin 1, np_div (100 * 20 + 25 * (20 - 20) + 100) (20 * t + t + 2500),
           Fin 4, Fin 3, np_div (10 * (20 - 20) + 15 * (20 - 20) + 410) (5 * (3 * t) + 600)] \<and>
    [Fin 20, Fin 1, np_div (100 * 20 + 25 * (20 - 20) + 100) (20 * t + t + 2500),
           Fin 4, Fin 3, np_div (10 * (20 - 20) + 15 * (20 - 20) + 410) (5 * (3 * t) + 600)] ! i
      = Fin ([20, 1, 0, 4, 3] ! i) \<and>
    ((\<lambda>s. linear_masses s ! i) has_real_derivative [20, 1, 0, 4, 3] ! i) (at t within {0..T})"
    by (auto simp: incinerator_eval linear_masses_def)
qed


subsection \<open>The truck\<close>

text \<open>
  Any solution of the truck's two equations on \<open>[0, T]\<close> has a speed that grows linearly
  and a position that grows quadratically; started at \<open>X_ini\<close> it is the closed form of
  the specification, and the closed form is such a solution.
\<close>

lemma truck_speed:
  assumes "solves_component transportTruck x 1 T" "0 \<le> s" "s \<le> T"
  shows "x s ! 1 = x 0 ! 1 + 4000 / 3210 * s"
proof -
  have "((\<lambda>s. x s ! 1) has_real_derivative 4000 / 3210) (at t within {0..T})"
    if t: "0 \<le> t" "t \<le> T" for t
  proof -
    from assms(1) t obtain d r where d: "transportTruck (x t) t = Inr d" "d ! 1 = Fin r"
      and der: "((\<lambda>s. x s ! 1) has_real_derivative r) (at t within {0..T})"
      by (rule solves_componentD)
    from d have "r = 4000 / 3210"
      by (auto simp: transportTruck_eval split: if_splits)
    with der show ?thesis by simp
  qed
  from constant_rate_linear [of T "\<lambda>s. x s ! 1", OF this assms(2,3)]
  show ?thesis by simp
qed

lemma truck_position:
  assumes v: "solves_component transportTruck x 1 T"
    and p: "solves_component transportTruck x 0 T"
    and s: "0 \<le> s" "s \<le> T"
  shows "x s ! 0 = x 0 ! 0 + x 0 ! 1 * s + 0.5 * (4000 / 3210) * s ^ 2"
proof -
  let ?w = "\<lambda>t. x t ! 0 - x 0 ! 1 * t - 0.5 * (4000 / 3210) * t ^ 2"
  have "(?w has_real_derivative 0) (at t within {0..T})" if t: "0 \<le> t" "t \<le> T" for t
  proof -
    from p t obtain d r where d: "transportTruck (x t) t = Inr d" "d ! 0 = Fin r"
      and der: "((\<lambda>s. x s ! 0) has_real_derivative r) (at t within {0..T})"
      by (rule solves_componentD)
    from d have "r = x t ! 1"
      by (auto simp: transportTruck_eval split: if_splits)
    also have "\<dots> = x 0 ! 1 + 4000 / 3210 * t"
      by (rule truck_speed [OF v t])
    finally have r: "r = x 0 ! 1 + 4000 / 3210 * t" .
    have "(?w has_real_derivative (r - x 0 ! 1 - 0.5 * (4000 / 3210) * (2 * t)))
        (at t within {0..T})"
      by (auto intro!: derivative_eq_intros der)
    then show ?thesis by (simp add: r)
  qed
  from zero_derivative_constant [of T ?w, OF this s]
  show ?thesis by simp
qed

lemma truck_exact_solution:
  assumes "x 0 = truck_X_ini"
    and "solves_component transportTruck x 0 T" "solves_component transportTruck x 1 T"
    and "0 \<le> t" "t \<le> T"
  shows "x t ! 0 = truck_closed_form t ! 0" "x t ! 1 = truck_closed_form t ! 1"
  using truck_position [OF assms(3,2,4,5)] truck_speed [OF assms(3,4,5)] assms(1)
  by (simp_all add: truck_closed_form_eval truck_X_ini_eval)

lemma truck_closed_form_solves_position:
  "solves_component transportTruck truck_closed_form 0 T"
proof (rule solves_componentI [where d = "\<lambda>t. [Fin (truck_closed_form t ! 1), Fin (4000 / 3210)]"
      and r = "\<lambda>t. truck_closed_form t ! 1"])
  fix t :: real
  have "((\<lambda>s. 0 + 4 * s + 0.5 * (4000 / 3210) * s ^ 2) has_real_derivative
      4 + 4000 / 3210 * t) (at t within {0..T})"
    by (auto intro!: derivative_eq_intros)
  then show "transportTruck (truck_closed_form t) t =
      Inr [Fin (truck_closed_form t ! 1), Fin (4000 / 3210)] \<and>
    0 < length [Fin (truck_closed_form t ! 1), Fin (4000 / 3210)] \<and>
    [Fin (truck_closed_form t ! 1), Fin (4000 / 3210)] ! 0 = Fin (truck_closed_form t ! 1) \<and>
    ((\<lambda>s. truck_closed_form s ! 0) has_real_derivative truck_closed_form t ! 1)
      (at t within {0..T})"
    by (simp add: transportTruck_eval truck_closed_form_eval)
qed

lemma truck_closed_form_solves_speed:
  "solves_component transportTruck truck_closed_form 1 T"
proof (rule solves_componentI [where d = "\<lambda>t. [Fin (truck_closed_form t ! 1), Fin (4000 / 3210)]"
      and r = "\<lambda>t. 4000 / 3210"])
  fix t :: real
  have "((\<lambda>s. 4 + 4000 / 3210 * s) has_real_derivative 4000 / 3210) (at t within {0..T})"
    by (auto intro!: derivative_eq_intros)
  then show "transportTruck (truck_closed_form t) t =
      Inr [Fin (truck_closed_form t ! 1), Fin (4000 / 3210)] \<and>
    1 < length [Fin (truck_closed_form t ! 1), Fin (4000 / 3210)] \<and>
    [Fin (truck_closed_form t ! 1), Fin (4000 / 3210)] ! 1 = Fin (4000 / 3210) \<and>
    ((\<lambda>s. truck_closed_form s ! 1) has_real_derivative 4000 / 3210) (at t within {0..T})"
    by (simp add: transportTruck_eval truck_closed_form_eval)
qed


subsection \<open>The mass balance of the Droop model\<close>

text \<open>
  Where both divisions of \<open>microalgaeDroop\<close> are defined, the derivative of
  \<open>S + X_ALG*Q\<close> along the vector field is \<open>(1/T_h)*(S_in - (S + X_ALG*Q))\<close>: the growth
  and uptake terms cancel. Along any solution on \<open>[0, T]\<close> the quantity is therefore the
  first-order response toward \<open>S_in = 100\<close> with time constant \<open>T_h = 1/0.45\<close>.
\<close>

lemma droop_mass_balance_rate:
  assumes "3 \<le> length X" "X ! 1 \<noteq> 0" "X ! 2 \<noteq> - val droop_globals ''K_S''"
  shows "\<exists>d. microalgaeDroop X t = Inr (map Fin d) \<and>
    mass_balance_along X d =
      1 / val droop_globals ''T_h'' * (val droop_globals ''S_in'' - mass_balance X)"
proof -
  from assms(3) have k: "X ! 2 + 0.1 \<noteq> 0"
    by (simp add: val_def droop_globals_values)
  let ?d = "[droop_mu (X ! 1) * X ! 0 - 0.45 * X ! 0,
             droop_rho (X ! 2) - droop_mu (X ! 1) * X ! 1,
             0.45 * (100 - X ! 2) - droop_rho (X ! 2) * X ! 0]"
  have "microalgaeDroop X t = Inr (map Fin ?d)"
    using microalgaeDroop_finite [OF assms(1,2) k] by simp
  moreover have "mass_balance_along X ?d =
      1 / val droop_globals ''T_h'' * (val droop_globals ''S_in'' - mass_balance X)"
    by (simp add: mass_balance_along_def mass_balance_def val_def droop_globals_values
        algebra_simps)
  ultimately show ?thesis by blast
qed

lemma droop_rates_balance:
  assumes "microalgaeDroop X t = Inr d" "d ! 0 = Fin r0" "d ! 1 = Fin r1" "d ! 2 = Fin r2"
  shows "r2 + (r0 * X ! 1 + X ! 0 * r1) = 0.45 * (100 - mass_balance X)"
proof -
  from assms(1) have len: "3 \<le> length X"
    by (simp add: microalgaeDroop_eval split: if_splits)
  have q: "X ! 1 \<noteq> 0"
  proof
    assume "X ! 1 = 0"
    with assms(1,2) len show False by (auto simp: microalgaeDroop_eval Let_def)
  qed
  have k: "X ! 2 + 0.1 \<noteq> 0"
  proof
    assume "X ! 2 + 0.1 = 0"
    with assms(1,4) len show False by (auto simp: microalgaeDroop_eval Let_def)
  qed
  from assms microalgaeDroop_finite [OF len q k, of t]
  have r: "r0 = droop_mu (X ! 1) * X ! 0 - 0.45 * X ! 0"
    "r1 = droop_rho (X ! 2) - droop_mu (X ! 1) * X ! 1"
    "r2 = 0.45 * (100 - X ! 2) - droop_rho (X ! 2) * X ! 0"
    by auto
  show ?thesis
    by (simp add: r mass_balance_def algebra_simps)
qed

lemma droop_relaxation:
  assumes x0: "solves_component microalgaeDroop x 0 T"
    and x1: "solves_component microalgaeDroop x 1 T"
    and x2: "solves_component microalgaeDroop x 2 T"
    and s: "0 \<le> s" "s \<le> T"
  shows "mass_balance (x s) = first_order (mass_balance (x 0)) 100 (20 / 9) s"
proof -
  let ?g = "\<lambda>t. mass_balance (x t)"
  let ?w = "\<lambda>t. (?g t - 100) * exp (0.45 * t)"
  have "(?w has_real_derivative 0) (at t within {0..T})" if t: "0 \<le> t" "t \<le> T" for t
  proof -
    from x0 t obtain d r0 where d: "microalgaeDroop (x t) t = Inr d" "d ! 0 = Fin r0"
      and der0: "((\<lambda>s. x s ! 0) has_real_derivative r0) (at t within {0..T})"
      by (rule solves_componentD)
    from x1 t obtain d' r1 where d': "microalgaeDroop (x t) t = Inr d'" "d' ! 1 = Fin r1"
      and der1: "((\<lambda>s. x s ! 1) has_real_derivative r1) (at t within {0..T})"
      by (rule solves_componentD)
    from x2 t obtain d'' r2 where d'': "microalgaeDroop (x t) t = Inr d''" "d'' ! 2 = Fin r2"
      and der2: "((\<lambda>s. x s ! 2) has_real_derivative r2) (at t within {0..T})"
      by (rule solves_componentD)
    from d d' d'' have same: "d' = d" "d'' = d" by simp_all
    have rate: "r2 + (r0 * x t ! 1 + x t ! 0 * r1) = 0.45 * (100 - ?g t)"
      using droop_rates_balance [of "x t" t d r0 r1 r2] d d' d'' same by simp
    have "((\<lambda>s. x s ! 0 * x s ! 1) has_real_derivative r0 * x t ! 1 + r1 * x t ! 0)
        (at t within {0..T})"
      by (rule DERIV_mult [OF der0 der1])
    from DERIV_add [OF der2 this]
    have "(?g has_real_derivative (r2 + (r0 * x t ! 1 + x t ! 0 * r1))) (at t within {0..T})"
      unfolding mass_balance_def by (simp add: mult.commute)
    then have g: "(?g has_real_derivative 0.45 * (100 - ?g t)) (at t within {0..T})"
      by (simp only: rate)
    have w: "(?w has_real_derivative
        (0.45 * (100 - ?g t)) * exp (0.45 * t) + (?g t - 100) * (exp (0.45 * t) * 0.45))
        (at t within {0..T})"
      by (rule derivative_eq_intros g refl | simp)+
    have "k * (c - y) * e + (y - c) * (e * k) = 0" for k c y e :: real
      by (simp add: algebra_simps)
    then have "(0.45 * (100 - ?g t)) * exp (0.45 * t) + (?g t - 100) * (exp (0.45 * t) * 0.45) = 0" .
    with w show ?thesis by (simp only:)
  qed
  from zero_derivative_constant [of T ?w, OF this s]
  have "(?g s - 100) * exp (0.45 * s) = ?g 0 - 100" by simp
  then have "?g s - 100 = (?g 0 - 100) * exp (- (0.45 * s))"
    by (simp add: exp_minus field_simps)
  then show ?thesis
    by (simp add: first_order_def algebra_simps)
qed


section \<open>The reporting mesh and the figures\<close>

text \<open>
  \<open>linspace 0 T 1000\<close> for a positive horizon is a strictly increasing list of 1000
  times from 0 to \<open>T\<close> with the constant spacing \<open>T/999\<close>; for the horizon 0 it is 1000
  zeros. The three scripts use the horizons 180, 15 and 15.
\<close>

lemma length_linspace: "length (linspace a b n) = n"
  by (simp add: linspace_def)

lemma linspace_nth:
  assumes "i < n" "1 < n"
  shows "linspace a b n ! i = (if i = n - 1 then b else a + real i * ((b - a) / real (n - 1)))"
  using assms by (simp add: linspace_def nth_list_update)

lemma linspace_nth_even:
  assumes "i < n" "1 < n"
  shows "linspace a b n ! i = a + real i * ((b - a) / real (n - 1))"
proof (cases "i = n - 1")
  case True
  with assms have "real i * ((b - a) / real (n - 1)) = b - a" by simp
  with True assms show ?thesis by (simp add: linspace_nth)
next
  case False
  with assms show ?thesis by (simp add: linspace_nth)
qed

lemma linspace_strict:
  assumes "a < b" "1 < n"
  shows "sorted_wrt (<) (linspace a b n)"
proof -
  have step: "0 < (b - a) / real (n - 1)" using assms by simp
  show ?thesis
    unfolding sorted_wrt_iff_nth_less
  proof (intro allI impI)
    fix i j assume ij: "i < j" "j < length (linspace a b n)"
    then have "i < n" "j < n" by (simp_all add: length_linspace)
    moreover from ij step have "real i * ((b - a) / real (n - 1)) < real j * ((b - a) / real (n - 1))"
      by (intro mult_strict_right_mono) simp_all
    ultimately show "linspace a b n ! i < linspace a b n ! j"
      using assms by (simp only: linspace_nth_even add_strict_left_mono)
  qed
qed

lemma linspace_degenerate: "linspace a a n = replicate n a"
proof (rule nth_equalityI)
  show "length (linspace a a n) = length (replicate n a)"
    by (simp add: length_linspace)
next
  fix i assume "i < length (linspace a a n)"
  then have i: "i < n" by (simp add: length_linspace)
  show "linspace a a n ! i = replicate n a ! i"
  proof (cases "n = 1")
    case True
    with i show ?thesis by (simp add: linspace_def)
  next
    case False
    with i have "1 < n" by simp
    with i show ?thesis by (simp add: linspace_nth)
  qed
qed

lemma reporting_mesh:
  assumes "0 < T"
  shows "length (linspace 0 T 1000) = 1000" "sorted_wrt (<) (linspace 0 T 1000)"
    "linspace 0 T 1000 ! 0 = 0" "linspace 0 T 1000 ! 999 = T"
    "i < 999 \<Longrightarrow> linspace 0 T 1000 ! Suc i - linspace 0 T 1000 ! i = T / 999"
proof -
  show "length (linspace 0 T 1000) = 1000" by (rule length_linspace)
  show "sorted_wrt (<) (linspace 0 T 1000)" using assms by (simp add: linspace_strict)
  show "linspace 0 T 1000 ! 0 = 0" by (simp add: linspace_nth)
  show "linspace 0 T 1000 ! 999 = T" by (simp add: linspace_nth)
  show "linspace 0 T 1000 ! Suc i - linspace 0 T 1000 ! i = T / 999" if "i < 999"
    using that by (simp add: linspace_nth_even algebra_simps)
qed

lemma script_meshes:
  "incinerator_t = linspace 0 180 1000" "droop_t = linspace 0 15 1000"
  "truck_t = linspace 0 15 1000"
  by (simp_all add: incinerator_t_def droop_t_def truck_t_def val_def
      incinerator_globals_values droop_globals_values truck_globals_values)

lemma mesh_lengths:
  "length incinerator_t = 1000" "length droop_t = 1000" "length truck_t = 1000"
  by (simp_all add: incinerator_t_def droop_t_def truck_t_def length_linspace)


text \<open>
  A script draws its figures exactly when the solver returned an array with one row per
  mesh time and one column per state component.
\<close>

lemma columns_rows:
  assumes "list_all (\<lambda>row. length row = d) X"
  shows "columns d X = Inr (map (\<lambda>j. map (\<lambda>row. row ! j) X) [0..<d])"
  using assms by (simp add: columns_def)

lemma columns_plotted:
  assumes "list_all (\<lambda>row. length row = d) X" "length X = length t"
  shows "(case columns d X of Inl e \<Rightarrow> Aborted e | Inr series \<Rightarrow> plots t series) =
    Plotted (map (Pair t) (map (\<lambda>j. map (\<lambda>row. row ! j) X) [0..<d]))"
  using assms by (simp add: columns_rows plots_def list_all_iff)

lemma plotted_shape:
  assumes "(case columns d X of Inl e \<Rightarrow> Aborted e | Inr series \<Rightarrow> plots t series)
      = Plotted figs" "0 < d"
  shows "length X = length t \<and> list_all (\<lambda>row. length row = d) X"
  using assms
  by (auto simp: columns_def plots_def list_all_iff split: if_splits)

lemma incinerator_script_plotted:
  assumes "odeint incinerator incinerator_X_ini incinerator_t 1000 = Inr (X, info)"
    and "length X = 1000" "list_all (\<lambda>row. length row = 6) X"
  shows "incinerator_script odeint =
    Plotted (map (Pair incinerator_t) (map (\<lambda>j. map (\<lambda>row. row ! j) X) [0..<6]))"
  using assms by (simp add: incinerator_script_def columns_plotted mesh_lengths)

lemma truck_script_plotted:
  assumes "odeint transportTruck truck_X_ini truck_t 1000 = Inr (X, info)"
    and "length X = 1000" "list_all (\<lambda>row. length row = 2) X"
  shows "truck_script odeint =
    Plotted (map (Pair truck_t) (map (\<lambda>j. map (\<lambda>row. row ! j) X) [0..<2]))"
  using assms by (simp add: truck_script_def columns_plotted mesh_lengths)

lemma droop_script_plotted:
  assumes "odeint microalgaeDroop droop_X_ini droop_t 1000 = Inr (X, info)"
    and "length X = 1000" "list_all (\<lambda>row. length row = 3) X"
  shows "is_plotted (droop_script odeint)"
  using assms
  by (simp add: droop_script_def Let_def columns_rows plots_def mesh_lengths
      eval_nat_numeral)

lemma droop_script_figures:
  assumes "odeint microalgaeDroop droop_X_ini droop_t 1000 = Inr (X, info)"
    and "length X = 1000" "list_all (\<lambda>row. length row = 3) X"
  shows "droop_script odeint =
    Plotted (map (Pair droop_t)
      [map (\<lambda>row. row ! 0) X, map (\<lambda>row. row ! 1) X, map (\<lambda>row. row ! 2) X,
       map (np_mul (Fin (val droop_globals ''K_CO2'')))
           (map (uptake droop_globals) (map (\<lambda>row. row ! 2) X)),
       map2 np_add (map (\<lambda>row. row ! 2) X)
            (map2 np_mul (map (\<lambda>row. row ! 0) X) (map (\<lambda>row. row ! 1) X))])"
  using assms
  by (simp add: droop_script_def Let_def columns_rows plots_def mesh_lengths
      eval_nat_numeral)

lemma scripts_same_trajectory:
  "odeint incinerator incinerator_X_ini incinerator_t 1000 = Inr (X, info) \<Longrightarrow>
   odeint' incinerator incinerator_X_ini incinerator_t 1000 = Inr (X, info') \<Longrightarrow>
   incinerator_script odeint = incinerator_script odeint'"
  "odeint microalgaeDroop droop_X_ini droop_t 1000 = Inr (Y, info) \<Longrightarrow>
   odeint' microalgaeDroop droop_X_ini droop_t 1000 = Inr (Y, info') \<Longrightarrow>
   droop_script odeint = droop_script odeint'"
  "odeint transportTruck truck_X_ini truck_t 1000 = Inr (Z, info) \<Longrightarrow>
   odeint' transportTruck truck_X_ini truck_t 1000 = Inr (Z, info') \<Longrightarrow>
   truck_script odeint = truck_script odeint'"
  by (simp_all add: incinerator_script_def droop_script_def truck_script_def)

lemma scripts_raise:
  "odeint incinerator incinerator_X_ini incinerator_t 1000 = Inl e \<Longrightarrow>
   incinerator_script odeint = Aborted e"
  "odeint microalgaeDroop droop_X_ini droop_t 1000 = Inl e \<Longrightarrow>
   droop_script odeint = Aborted e"
  "odeint transportTruck truck_X_ini truck_t 1000 = Inl e \<Longrightarrow>
   truck_script odeint = Aborted e"
  by (simp_all add: incinerator_script_def droop_script_def truck_script_def)

lemma stalled_odeint_returns:
  "stalled_odeint incinerator incinerator_X_ini incinerator_t 1000 =
    Inr ([Fin 0, Fin 0, Fin 20, Fin 0, Fin 0, Fin 20]
          # replicate 999 [Fin 0, Fin 0, Fin 0, Fin 0, Fin 0, Fin 0],
         \<lparr>message = excess_work, nst = [1000]\<rparr>)"
  "stalled_odeint microalgaeDroop droop_X_ini droop_t 1000 =
    Inr ([Fin 26, Fin 2.82, Fin 0] # replicate 999 [Fin 0, Fin 0, Fin 0],
         \<lparr>message = excess_work, nst = [1000]\<rparr>)"
  "stalled_odeint transportTruck truck_X_ini truck_t 1000 =
    Inr ([Fin 0, Fin 4] # replicate 999 [Fin 0, Fin 0],
         \<lparr>message = excess_work, nst = [1000]\<rparr>)"
  by (simp_all add: stalled_odeint_def mesh_lengths incinerator_X_ini_eval droop_X_ini_eval
      truck_X_ini_eval)

lemma successful_odeint_returns:
  "successful_odeint incinerator incinerator_X_ini incinerator_t 1000 =
    Inr ([Fin 0, Fin 0, Fin 20, Fin 0, Fin 0, Fin 20]
          # replicate 999 [Fin 0, Fin 0, Fin 0, Fin 0, Fin 0, Fin 0],
         \<lparr>message = ''Integration successful.'', nst = [1]\<rparr>)"
  "successful_odeint microalgaeDroop droop_X_ini droop_t 1000 =
    Inr ([Fin 26, Fin 2.82, Fin 0] # replicate 999 [Fin 0, Fin 0, Fin 0],
         \<lparr>message = ''Integration successful.'', nst = [1]\<rparr>)"
  "successful_odeint transportTruck truck_X_ini truck_t 1000 =
    Inr ([Fin 0, Fin 4] # replicate 999 [Fin 0, Fin 0],
         \<lparr>message = ''Integration successful.'', nst = [1]\<rparr>)"
  by (simp_all add: successful_odeint_def mesh_lengths incinerator_X_ini_eval
      droop_X_ini_eval truck_X_ini_eval)


section \<open>Properties of the derivative functions\<close>

text \<open>
  C6. The incinerator module assigns \<open>c_p_m\<close> twice, 25 on line 51 and 5 on line 60, and
  the namespace the derivative function reads holds the later value 5. For every state
  of six components both energy-balance denominators are computed with 5: the wastebed
  one is \<open>c_p_w*X[0] + c_p_char*X[1] + 5*M_grate = X[0] + X[1] + 2500\<close>, the freeboard one
  \<open>c_p_g*X[4] + 5*M_f_b\<close>. At the initial state \<open>[0, 0, 20, 0, 0, 20]\<close> the derivative
  of the wastebed temperature is \<open>(100*1*20 + 5*5*(20-20) + 100)/2500 = 0.84\<close>, and not
  what the first value 25 would give.
\<close>

theorem incinerator_reads_final_c_p_m:
  "history incinerator_settings Map.empty ''c_p_m'' = [25, 5] \<and>
   incinerator_globals ''c_p_m'' = Some 5 \<and>
   (6 \<le> length X \<longrightarrow>
      incinerator X t =
        Inr [Fin 20, Fin 1,
             np_div (100 * 1 * X ! 2 + 5 * 5 * (20 - X ! 2) + 100) (1 * X ! 0 + 1 * X ! 1 + 5 * 500),
             Fin 4, Fin 3,
             np_div (2 * 5 * (X ! 2 - X ! 5) + 3 * 5 * (20 - X ! 5) + 450 - 40)
                    (5 * X ! 4 + 5 * 120)] \<and>
      1 * X ! 0 + 1 * X ! 1 + 5 * 500 = X ! 0 + X ! 1 + 2500) \<and>
   incinerator incinerator_X_ini t =
     Inr [Fin 20, Fin 1, Fin ((100 * 1 * 20 + 5 * 5 * (20 - 20) + 100) / 2500), Fin 4, Fin 3,
          Fin (410 / 600)] \<and>
   (100 * 1 * 20 + 5 * 5 * (20 - 20) + 100) / 2500 = (0.84 :: real) \<and>
   incinerator incinerator_X_ini t \<noteq>
     incinerator_in (incinerator_globals(''c_p_m'' \<mapsto> 25)) incinerator_X_ini t"
proof -
  have "unbound (incinerator_globals(''c_p_m'' \<mapsto> 25)) incinerator_reads = []"
    by (simp add: unbound_def incinerator_reads_def incinerator_globals_values)
  then have "incinerator_in (incinerator_globals(''c_p_m'' \<mapsto> 25)) incinerator_X_ini t =
      Inr [Fin 20, Fin 1, Fin (2100 / 12500), Fin 4, Fin 3, Fin (410 / 3000)]"
    by (simp add: incinerator_in_def incinerator_X_ini_eval val_def incinerator_globals_values)
  then show ?thesis
    by (simp add: c_p_m_history incinerator_globals_values incinerator_eval
        incinerator_X_ini_eval)
qed

theorem incinerator_reads_final_c_p_m_witness:
  "6 \<le> length [1, 2, 30, 4, 5, 40 :: real] \<and>
   incinerator [1, 2, 30, 4, 5, 40] 0 =
     Inr [Fin 20, Fin 1, Fin (2850 / 2503), Fin 4, Fin 3, Fin (10 / 625)]"
  using incinerator_reads_final_c_p_m [of "[1, 2, 30, 4, 5, 40]" 0] by simp

text \<open>
  C8. The three derivative functions are autonomous: each takes the time as its second
  argument and returns the same result, a vector or a fault, at any two times, in the
  module's namespace and in any other.
\<close>

theorem derivative_functions_autonomous:
  "incinerator_in G X t1 = incinerator_in G X t2 \<and>
   microalgaeDroop_in G' Y t1 = microalgaeDroop_in G' Y t2 \<and>
   transportTruck_in G'' Z t1 = transportTruck_in G'' Z t2 \<and>
   incinerator X t1 = incinerator X t2 \<and>
   microalgaeDroop Y t1 = microalgaeDroop Y t2 \<and>
   transportTruck Z t1 = transportTruck Z t2"
  by (simp add: incinerator_def incinerator_in_def microalgaeDroop_def microalgaeDroop_in_def
      transportTruck_def transportTruck_in_def)

text \<open>
  C7. The divisions of the derivative functions are unguarded. For a state of six
  components \<open>incinerator\<close> raises no fault and returns a vector whose
  wastebed-temperature component is non-finite when \<open>X[0] + X[1] + 2500\<close> is zero and
  whose freeboard-temperature component is non-finite when \<open>5*X[4] + 600\<close> is zero; for
  a state of three components \<open>microalgaeDroop\<close> raises no fault and returns a vector
  whose components 0 and 1 are non-finite when \<open>X[1]\<close> is zero and whose components 1
  and 2 are non-finite when \<open>X[2] + K_S\<close> is zero. Nothing is recovered: at
  \<open>[-2500, 0, 20, 0, 0, 20]\<close>, at \<open>Q = 0\<close> and at \<open>S = -0.1\<close> the returned vectors hold
  non-finite entries. \<open>transportTruck\<close> divides two constants only. At the three initial
  states every denominator is non-zero and every component is finite. Nothing is said
  about states whose denominator is close to zero without being zero: there the
  float64 quotient may overflow, which the exact arithmetic of the model does not show.
\<close>

theorem unguarded_divisions:
  "(6 \<le> length X \<longrightarrow>
      (\<exists>d. incinerator X t = Inr d \<and> length d = 6 \<and>
           (X ! 0 + X ! 1 + 2500 = 0 \<longrightarrow> d ! 2 = NonFinite) \<and>
           (5 * X ! 4 + 600 = 0 \<longrightarrow> d ! 5 = NonFinite))) \<and>
   (3 \<le> length Y \<longrightarrow>
      (\<exists>d. microalgaeDroop Y t = Inr d \<and> length d = 3 \<and>
           (Y ! 1 = 0 \<longrightarrow> d ! 0 = NonFinite \<and> d ! 1 = NonFinite) \<and>
           (Y ! 2 + val droop_globals ''K_S'' = 0 \<longrightarrow>
              d ! 1 = NonFinite \<and> d ! 2 = NonFinite))) \<and>
   (2 \<le> length Z \<longrightarrow> transportTruck Z t = Inr [Fin (Z ! 1), Fin (4000 / 3210)]) \<and>
   incinerator [- 2500, 0, 20, 0, 0, 20] t =
     Inr [Fin 20, Fin 1, NonFinite, Fin 4, Fin 3, Fin (41 / 60)] \<and>
   microalgaeDroop [26, 0, 0] t = Inr [NonFinite, NonFinite, Fin 45] \<and>
   microalgaeDroop [26, 2.82, - 0.1] t = Inr [Fin (64415 / 19458), NonFinite, NonFinite] \<and>
   incinerator incinerator_X_ini t =
     Inr [Fin 20, Fin 1, Fin (2100 / 2500), Fin 4, Fin 3, Fin (410 / 600)] \<and>
   microalgaeDroop droop_X_ini t =
     Inr [Fin (64415 / 19458), Fin (- (14042 / 8625)), Fin 45] \<and>
   transportTruck truck_X_ini t = Inr [Fin 4, Fin (4000 / 3210)]"
proof -
  have inc: "\<exists>d. incinerator X t = Inr d \<and> length d = 6 \<and>
           (X ! 0 + X ! 1 + 2500 = 0 \<longrightarrow> d ! 2 = NonFinite) \<and>
           (5 * X ! 4 + 600 = 0 \<longrightarrow> d ! 5 = NonFinite)" if "6 \<le> length X"
    using that by (simp add: incinerator_eval)
  have droop: "\<exists>d. microalgaeDroop Y t = Inr d \<and> length d = 3 \<and>
           (Y ! 1 = 0 \<longrightarrow> d ! 0 = NonFinite \<and> d ! 1 = NonFinite) \<and>
           (Y ! 2 + val droop_globals ''K_S'' = 0 \<longrightarrow>
              d ! 1 = NonFinite \<and> d ! 2 = NonFinite)"
    if "3 \<le> length Y"
    using that by (simp add: microalgaeDroop_eval Let_def val_def droop_globals_values)
  have truck: "transportTruck Z t = Inr [Fin (Z ! 1), Fin (4000 / 3210)]" if "2 \<le> length Z"
    using that by (simp add: transportTruck_eval)
  have e1: "incinerator [- 2500, 0, 20, 0, 0, 20] t =
     Inr [Fin 20, Fin 1, NonFinite, Fin 4, Fin 3, Fin (41 / 60)]"
    by (simp add: incinerator_eval)
  have e2: "microalgaeDroop [26, 0, 0] t = Inr [NonFinite, NonFinite, Fin 45]"
    by (simp add: microalgaeDroop_eval)
  have e3: "microalgaeDroop [26, 2.82, - 0.1] t = Inr [Fin (64415 / 19458), NonFinite, NonFinite]"
    by (simp add: microalgaeDroop_eval)
  have e4: "incinerator incinerator_X_ini t =
     Inr [Fin 20, Fin 1, Fin (2100 / 2500), Fin 4, Fin 3, Fin (410 / 600)]"
    by (simp add: incinerator_eval incinerator_X_ini_eval)
  have e5: "microalgaeDroop droop_X_ini t =
     Inr [Fin (64415 / 19458), Fin (- (14042 / 8625)), Fin 45]"
    by (simp add: microalgaeDroop_eval droop_X_ini_eval)
  have e6: "transportTruck truck_X_ini t = Inr [Fin 4, Fin (4000 / 3210)]"
    by (simp add: transportTruck_eval truck_X_ini_eval)
  from inc droop truck e1 e2 e3 e4 e5 e6 show ?thesis by blast
qed

theorem unguarded_divisions_witness:
  "6 \<le> length [- 2500, 0, 20, 0, - 120, 20 :: real] \<and>
   [- 2500, 0, 20, 0, - 120, 20 :: real] ! 0 + [- 2500, 0, 20, 0, - 120, 20] ! 1 + 2500 = 0 \<and>
   5 * [- 2500, 0, 20, 0, - 120, 20 :: real] ! 4 + 600 = 0 \<and>
   3 \<le> length [26, 0, - 0.1 :: real] \<and> [26, 0, - 0.1 :: real] ! 1 = 0 \<and>
   [26, 0, - 0.1 :: real] ! 2 + val droop_globals ''K_S'' = 0 \<and>
   2 \<le> length [0, 4 :: real] \<and>
   (\<exists>d. incinerator [- 2500, 0, 20, 0, - 120, 20] 0 = Inr d \<and> length d = 6 \<and>
        d ! 2 = NonFinite \<and> d ! 5 = NonFinite) \<and>
   (\<exists>d. microalgaeDroop [26, 0, - 0.1] 0 = Inr d \<and> length d = 3 \<and>
        d ! 0 = NonFinite \<and> d ! 1 = NonFinite \<and> d ! 2 = NonFinite) \<and>
   transportTruck [0, 4] 0 = Inr [Fin 4, Fin (4000 / 3210)]"
proof -
  have k: "val droop_globals ''K_S'' = 0.1"
    by (simp add: val_def droop_globals_values)
  from unguarded_divisions [of "[- 2500, 0, 20, 0, - 120, 20]" 0 "[26, 0, - 0.1]" "[0, 4]"]
  show ?thesis by (simp add: k)
qed

text \<open>
  C9. Components 0, 1, 3 and 4 of \<open>incinerator\<close> are the constants
  \<open>F_in - F_out - R_w = 20\<close>, \<open>-F_char_out + P_char - R_char = 1\<close>,
  \<open>F_aI - F_g_w_out + R_g = 4\<close> and \<open>F_g_w_out - F_g_out + F_aII = 3\<close> at every state of
  six components and every time. Hence a state function that starts at \<open>X_ini\<close> and
  solves one of these components on \<open>[0, T]\<close> is linear in time there: the waste mass is
  \<open>20*t\<close>, the char mass \<open>t\<close>, the gas mass in the wastebed \<open>4*t\<close> and the gas mass in the
  freeboard \<open>3*t\<close>.
\<close>

theorem incinerator_linear_components:
  "(6 \<le> length X \<longrightarrow>
      (\<exists>d. incinerator X t = Inr d \<and>
           d ! 0 = Fin (val incinerator_globals ''F_in'' - val incinerator_globals ''F_out''
                          - val incinerator_globals ''R_w'') \<and>
           d ! 0 = Fin 20 \<and>
           d ! 1 = Fin (- val incinerator_globals ''F_char_out''
                          + val incinerator_globals ''P_char''
                          - val incinerator_globals ''R_char'') \<and>
           d ! 1 = Fin 1 \<and>
           d ! 3 = Fin (val incinerator_globals ''F_aI'' - val incinerator_globals ''F_g_w_out''
                          + val incinerator_globals ''R_g'') \<and>
           d ! 3 = Fin 4 \<and>
           d ! 4 = Fin (val incinerator_globals ''F_g_w_out''
                          - val incinerator_globals ''F_g_out''
                          + val incinerator_globals ''F_aII'') \<and>
           d ! 4 = Fin 3)) \<and>
   (x 0 = incinerator_X_ini \<and> 0 \<le> s \<and> s \<le> T \<longrightarrow>
      (solves_component incinerator x 0 T \<longrightarrow> x s ! 0 = 20 * s) \<and>
      (solves_component incinerator x 1 T \<longrightarrow> x s ! 1 = s) \<and>
      (solves_component incinerator x 3 T \<longrightarrow> x s ! 3 = 4 * s) \<and>
      (solves_component incinerator x 4 T \<longrightarrow> x s ! 4 = 3 * s))"
proof (intro conjI impI)
  assume "6 \<le> length X"
  then show "\<exists>d. incinerator X t = Inr d \<and>
           d ! 0 = Fin (val incinerator_globals ''F_in'' - val incinerator_globals ''F_out''
                          - val incinerator_globals ''R_w'') \<and>
           d ! 0 = Fin 20 \<and>
           d ! 1 = Fin (- val incinerator_globals ''F_char_out''
                          + val incinerator_globals ''P_char''
                          - val incinerator_globals ''R_char'') \<and>
           d ! 1 = Fin 1 \<and>
           d ! 3 = Fin (val incinerator_globals ''F_aI'' - val incinerator_globals ''F_g_w_out''
                          + val incinerator_globals ''R_g'') \<and>
           d ! 3 = Fin 4 \<and>
           d ! 4 = Fin (val incinerator_globals ''F_g_w_out''
                          - val incinerator_globals ''F_g_out''
                          + val incinerator_globals ''F_aII'') \<and>
           d ! 4 = Fin 3"
    by (simp add: incinerator_eval val_def incinerator_globals_values)
next
  assume a: "x 0 = incinerator_X_ini \<and> 0 \<le> s \<and> s \<le> T"
    and sol: "solves_component incinerator x 0 T"
  from constant_rate_linear [of T "\<lambda>s. x s ! 0" 20 s]
    incinerator_component_rates [OF sol, simplified] a
  show "x s ! 0 = 20 * s" by (simp add: incinerator_X_ini_eval)
next
  assume a: "x 0 = incinerator_X_ini \<and> 0 \<le> s \<and> s \<le> T"
    and sol: "solves_component incinerator x 1 T"
  from constant_rate_linear [of T "\<lambda>s. x s ! 1" 1 s]
    incinerator_component_rates [OF sol, simplified] a
  show "x s ! 1 = s" by (simp add: incinerator_X_ini_eval)
next
  assume a: "x 0 = incinerator_X_ini \<and> 0 \<le> s \<and> s \<le> T"
    and sol: "solves_component incinerator x 3 T"
  from constant_rate_linear [of T "\<lambda>s. x s ! 3" 4 s]
    incinerator_component_rates [OF sol, simplified] a
  show "x s ! 3 = 4 * s" by (simp add: incinerator_X_ini_eval)
next
  assume a: "x 0 = incinerator_X_ini \<and> 0 \<le> s \<and> s \<le> T"
    and sol: "solves_component incinerator x 4 T"
  from constant_rate_linear [of T "\<lambda>s. x s ! 4" 3 s]
    incinerator_component_rates [OF sol, simplified] a
  show "x s ! 4 = 3 * s" by (simp add: incinerator_X_ini_eval)
qed

theorem incinerator_linear_components_witness:
  "6 \<le> length incinerator_X_ini \<and>
   linear_masses 0 = incinerator_X_ini \<and> (0 :: real) \<le> 180 \<and>
   solves_component incinerator linear_masses 0 180 \<and>
   solves_component incinerator linear_masses 1 180 \<and>
   solves_component incinerator linear_masses 3 180 \<and>
   solves_component incinerator linear_masses 4 180 \<and>
   linear_masses 180 ! 0 = 20 * 180 \<and>
   linear_masses 180 ! 1 = 180 \<and>
   linear_masses 180 ! 3 = 4 * 180 \<and>
   linear_masses 180 ! 4 = 3 * 180"
  using incinerator_linear_components [of incinerator_X_ini 0 linear_masses 180 180]
    linear_masses_solve [of 0 180] linear_masses_solve [of 1 180]
    linear_masses_solve [of 3 180] linear_masses_solve [of 4 180]
  by (simp add: incinerator_X_ini_eval linear_masses_def)


section \<open>The scripts and the solver's diagnostics\<close>

text \<open>
  C4, as the code has it. In each of the three scripts an exception raised by the solver
  aborts the run, and nothing else does on the solver's account: the scripts bind
  \<open>infodict\<close> and never read it. Two solvers that return the same trajectory with
  different diagnostics give the same run, and a returned trajectory with 1000 rows of
  the system's dimension is plotted whatever \<open>infodict\<close> reports: the figures are the
  columns of the returned array against the mesh, and for the Droop script also the
  \<open>CO2\<close> flow and the mass balance computed from those columns.
\<close>

theorem scripts_never_inspect_infodict:
  fixes odeint odeint' :: solver
  shows
  "(odeint incinerator incinerator_X_ini incinerator_t 1000 = Inl e \<longrightarrow>
      incinerator_script odeint = Aborted e) \<and>
   (odeint microalgaeDroop droop_X_ini droop_t 1000 = Inl e \<longrightarrow>
      droop_script odeint = Aborted e) \<and>
   (odeint transportTruck truck_X_ini truck_t 1000 = Inl e \<longrightarrow>
      truck_script odeint = Aborted e) \<and>
   (odeint incinerator incinerator_X_ini incinerator_t 1000 = Inr (X, info) \<and>
    odeint' incinerator incinerator_X_ini incinerator_t 1000 = Inr (X, info') \<longrightarrow>
      incinerator_script odeint = incinerator_script odeint') \<and>
   (odeint microalgaeDroop droop_X_ini droop_t 1000 = Inr (Y, info) \<and>
    odeint' microalgaeDroop droop_X_ini droop_t 1000 = Inr (Y, info') \<longrightarrow>
      droop_script odeint = droop_script odeint') \<and>
   (odeint transportTruck truck_X_ini truck_t 1000 = Inr (Z, info) \<and>
    odeint' transportTruck truck_X_ini truck_t 1000 = Inr (Z, info') \<longrightarrow>
      truck_script odeint = truck_script odeint') \<and>
   (odeint incinerator incinerator_X_ini incinerator_t 1000 = Inr (X, info) \<and>
    length X = 1000 \<and> list_all (\<lambda>row. length row = 6) X \<longrightarrow>
      is_plotted (incinerator_script odeint) \<and>
      incinerator_script odeint =
        Plotted (map (Pair incinerator_t) (map (\<lambda>j. map (\<lambda>row. row ! j) X) [0..<6]))) \<and>
   (odeint microalgaeDroop droop_X_ini droop_t 1000 = Inr (Y, info) \<and>
    length Y = 1000 \<and> list_all (\<lambda>row. length row = 3) Y \<longrightarrow>
      is_plotted (droop_script odeint) \<and>
      droop_script odeint =
        Plotted (map (Pair droop_t)
          [map (\<lambda>row. row ! 0) Y, map (\<lambda>row. row ! 1) Y, map (\<lambda>row. row ! 2) Y,
           map (np_mul (Fin (val droop_globals ''K_CO2'')))
               (map (uptake droop_globals) (map (\<lambda>row. row ! 2) Y)),
           map2 np_add (map (\<lambda>row. row ! 2) Y)
                (map2 np_mul (map (\<lambda>row. row ! 0) Y) (map (\<lambda>row. row ! 1) Y))])) \<and>
   (odeint transportTruck truck_X_ini truck_t 1000 = Inr (Z, info) \<and>
    length Z = 1000 \<and> list_all (\<lambda>row. length row = 2) Z \<longrightarrow>
      is_plotted (truck_script odeint) \<and>
      truck_script odeint =
        Plotted (map (Pair truck_t) (map (\<lambda>j. map (\<lambda>row. row ! j) Z) [0..<2])))"
proof (intro conjI impI; (elim conjE)?)
  assume "odeint incinerator incinerator_X_ini incinerator_t 1000 = Inl e"
  then show "incinerator_script odeint = Aborted e" by (rule scripts_raise)
next
  assume "odeint microalgaeDroop droop_X_ini droop_t 1000 = Inl e"
  then show "droop_script odeint = Aborted e" by (rule scripts_raise)
next
  assume "odeint transportTruck truck_X_ini truck_t 1000 = Inl e"
  then show "truck_script odeint = Aborted e" by (rule scripts_raise)
next
  assume "odeint incinerator incinerator_X_ini incinerator_t 1000 = Inr (X, info)"
    "odeint' incinerator incinerator_X_ini incinerator_t 1000 = Inr (X, info')"
  then show "incinerator_script odeint = incinerator_script odeint'"
    by (rule scripts_same_trajectory)
next
  assume "odeint microalgaeDroop droop_X_ini droop_t 1000 = Inr (Y, info)"
    "odeint' microalgaeDroop droop_X_ini droop_t 1000 = Inr (Y, info')"
  then show "droop_script odeint = droop_script odeint'"
    by (rule scripts_same_trajectory)
next
  assume "odeint transportTruck truck_X_ini truck_t 1000 = Inr (Z, info)"
    "odeint' transportTruck truck_X_ini truck_t 1000 = Inr (Z, info')"
  then show "truck_script odeint = truck_script odeint'"
    by (rule scripts_same_trajectory)
next
  assume "odeint incinerator incinerator_X_ini incinerator_t 1000 = Inr (X, info)"
    "length X = 1000" "list_all (\<lambda>row. length row = 6) X"
  then show "is_plotted (incinerator_script odeint)"
    by (simp add: incinerator_script_plotted)
next
  assume "odeint incinerator incinerator_X_ini incinerator_t 1000 = Inr (X, info)"
    "length X = 1000" "list_all (\<lambda>row. length row = 6) X"
  then show "incinerator_script odeint =
      Plotted (map (Pair incinerator_t) (map (\<lambda>j. map (\<lambda>row. row ! j) X) [0..<6]))"
    by (rule incinerator_script_plotted)
next
  assume "odeint microalgaeDroop droop_X_ini droop_t 1000 = Inr (Y, info)"
    "length Y = 1000" "list_all (\<lambda>row. length row = 3) Y"
  then show "is_plotted (droop_script odeint)"
    by (rule droop_script_plotted)
next
  assume "odeint microalgaeDroop droop_X_ini droop_t 1000 = Inr (Y, info)"
    "length Y = 1000" "list_all (\<lambda>row. length row = 3) Y"
  then show "droop_script odeint =
      Plotted (map (Pair droop_t)
          [map (\<lambda>row. row ! 0) Y, map (\<lambda>row. row ! 1) Y, map (\<lambda>row. row ! 2) Y,
           map (np_mul (Fin (val droop_globals ''K_CO2'')))
               (map (uptake droop_globals) (map (\<lambda>row. row ! 2) Y)),
           map2 np_add (map (\<lambda>row. row ! 2) Y)
                (map2 np_mul (map (\<lambda>row. row ! 0) Y) (map (\<lambda>row. row ! 1) Y))])"
    by (rule droop_script_figures)
next
  assume "odeint transportTruck truck_X_ini truck_t 1000 = Inr (Z, info)"
    "length Z = 1000" "list_all (\<lambda>row. length row = 2) Z"
  then show "is_plotted (truck_script odeint)"
    by (simp add: truck_script_plotted)
next
  assume "odeint transportTruck truck_X_ini truck_t 1000 = Inr (Z, info)"
    "length Z = 1000" "list_all (\<lambda>row. length row = 2) Z"
  then show "truck_script odeint =
      Plotted (map (Pair truck_t) (map (\<lambda>j. map (\<lambda>row. row ! j) Z) [0..<2]))"
    by (rule truck_script_plotted)
qed

theorem scripts_never_inspect_infodict_witness:
  "raising_odeint incinerator incinerator_X_ini incinerator_t 1000
     = Inl (SolverError excess_work) \<and>
   incinerator_script raising_odeint = Aborted (SolverError excess_work) \<and>
   droop_script raising_odeint = Aborted (SolverError excess_work) \<and>
   truck_script raising_odeint = Aborted (SolverError excess_work) \<and>
   incinerator_script stalled_odeint = incinerator_script successful_odeint \<and>
   droop_script stalled_odeint = droop_script successful_odeint \<and>
   truck_script stalled_odeint = truck_script successful_odeint \<and>
   is_plotted (incinerator_script successful_odeint) \<and>
   is_plotted (droop_script successful_odeint) \<and>
   is_plotted (truck_script successful_odeint)"
proof -
  have rows: "list_all (\<lambda>row. length row = 6)
      ([Fin 0, Fin 0, Fin 20, Fin 0, Fin 0, Fin 20]
        # replicate 999 [Fin 0, Fin 0, Fin 0, Fin 0, Fin 0, Fin 0])"
    "list_all (\<lambda>row. length row = 3)
      ([Fin 26, Fin 2.82, Fin 0] # replicate 999 [Fin 0, Fin 0, Fin 0])"
    "list_all (\<lambda>row. length row = 2) ([Fin 0, Fin 4] # replicate 999 [Fin 0, Fin 0])"
    by (simp_all add: list_all_iff)
  have raised: "raising_odeint f y0 t m = Inl (SolverError excess_work)" for f y0 t m
    by (simp add: raising_odeint_def)
  from scripts_never_inspect_infodict [of raising_odeint "SolverError excess_work"
      "[]" "\<lparr>message = [], nst = []\<rparr>" raising_odeint "\<lparr>message = [], nst = []\<rparr>" "[]" "[]"]
  have a: "incinerator_script raising_odeint = Aborted (SolverError excess_work)"
    "droop_script raising_odeint = Aborted (SolverError excess_work)"
    "truck_script raising_odeint = Aborted (SolverError excess_work)"
    by (simp_all add: raised)
  from scripts_never_inspect_infodict [of stalled_odeint ValueError
      "[Fin 0, Fin 0, Fin 20, Fin 0, Fin 0, Fin 20]
        # replicate 999 [Fin 0, Fin 0, Fin 0, Fin 0, Fin 0, Fin 0]"
      "\<lparr>message = excess_work, nst = [1000]\<rparr>" successful_odeint
      "\<lparr>message = ''Integration successful.'', nst = [1]\<rparr>"
      "[Fin 26, Fin 2.82, Fin 0] # replicate 999 [Fin 0, Fin 0, Fin 0]"
      "[Fin 0, Fin 4] # replicate 999 [Fin 0, Fin 0]"]
  have b: "incinerator_script stalled_odeint = incinerator_script successful_odeint"
    "droop_script stalled_odeint = droop_script successful_odeint"
    "truck_script stalled_odeint = truck_script successful_odeint"
    by (simp_all add: stalled_odeint_returns successful_odeint_returns)
  from scripts_never_inspect_infodict [of successful_odeint ValueError
      "[Fin 0, Fin 0, Fin 20, Fin 0, Fin 0, Fin 20]
        # replicate 999 [Fin 0, Fin 0, Fin 0, Fin 0, Fin 0, Fin 0]"
      "\<lparr>message = ''Integration successful.'', nst = [1]\<rparr>" successful_odeint
      "\<lparr>message = ''Integration successful.'', nst = [1]\<rparr>"
      "[Fin 26, Fin 2.82, Fin 0] # replicate 999 [Fin 0, Fin 0, Fin 0]"
      "[Fin 0, Fin 4] # replicate 999 [Fin 0, Fin 0]"] rows
  have c: "is_plotted (incinerator_script successful_odeint)"
    "is_plotted (droop_script successful_odeint)"
    "is_plotted (truck_script successful_odeint)"
    by (simp_all add: successful_odeint_returns)
  from a b c raised show ?thesis by simp
qed

text \<open>
  C4, as the specification states it, fails. A solver that reports the step ceiling the
  way \<open>odeint\<close> does, by returning with \<open>Excess work done on this call\<close> in
  \<open>infodict['message']\<close> and the rows it did not reach left unfilled, makes none of the
  three scripts stop: each one plots the trajectory it was given.
\<close>

theorem excess_work_is_plotted:
  "stalled_odeint incinerator incinerator_X_ini incinerator_t 1000 =
    Inr ([Fin 0, Fin 0, Fin 20, Fin 0, Fin 0, Fin 20]
          # replicate 999 [Fin 0, Fin 0, Fin 0, Fin 0, Fin 0, Fin 0],
         \<lparr>message = excess_work, nst = [1000]\<rparr>) \<and>
   is_plotted (incinerator_script stalled_odeint) \<and>
   stalled_odeint microalgaeDroop droop_X_ini droop_t 1000 =
    Inr ([Fin 26, Fin 2.82, Fin 0] # replicate 999 [Fin 0, Fin 0, Fin 0],
         \<lparr>message = excess_work, nst = [1000]\<rparr>) \<and>
   is_plotted (droop_script stalled_odeint) \<and>
   stalled_odeint transportTruck truck_X_ini truck_t 1000 =
    Inr ([Fin 0, Fin 4] # replicate 999 [Fin 0, Fin 0],
         \<lparr>message = excess_work, nst = [1000]\<rparr>) \<and>
   is_plotted (truck_script stalled_odeint)"
proof -
  have "is_plotted (incinerator_script stalled_odeint)"
    by (subst incinerator_script_plotted [of stalled_odeint, OF stalled_odeint_returns(1)])
      (simp_all add: list_all_iff)
  moreover have "is_plotted (droop_script stalled_odeint)"
    by (rule droop_script_plotted [of stalled_odeint, OF stalled_odeint_returns(2)])
      (simp_all add: list_all_iff)
  moreover have "is_plotted (truck_script stalled_odeint)"
    by (subst truck_script_plotted [of stalled_odeint, OF stalled_odeint_returns(3)])
      (simp_all add: list_all_iff)
  ultimately show ?thesis
    by (simp only: stalled_odeint_returns simp_thms)
qed

end
